theory Spec2Isabelle
  imports Complex_Main
begin

section \<open>Enum domains\<close>

text \<open>
  The four \<^verbatim>\<open>enum.Enum\<close> classes of \<^verbatim>\<open>airconditioningcompanion.py\<close>.  Two classes
  have a member \<^verbatim>\<open>Auto\<close> and two have \<^verbatim>\<open>On\<close>/\<^verbatim>\<open>Off\<close>, so every member carries its
  class name.  The \<^verbatim>\<open>.value\<close> of a member is a Python \<^verbatim>\<open>int\<close>.
\<close>

datatype OperationMode =
    OperationMode_Heat | OperationMode_Cool | OperationMode_Auto
  | OperationMode_Dehumidify | OperationMode_Ventilate

datatype FanSpeed = FanSpeed_Low | FanSpeed_Medium | FanSpeed_High | FanSpeed_Auto

datatype SwingMode = SwingMode_On | SwingMode_Off

datatype Power = Power_On | Power_Off

fun OperationMode_value :: "OperationMode \<Rightarrow> int" where
  "OperationMode_value OperationMode_Heat = 0"
| "OperationMode_value OperationMode_Cool = 1"
| "OperationMode_value OperationMode_Auto = 2"
| "OperationMode_value OperationMode_Dehumidify = 3"
| "OperationMode_value OperationMode_Ventilate = 4"

fun FanSpeed_value :: "FanSpeed \<Rightarrow> int" where
  "FanSpeed_value FanSpeed_Low = 0"
| "FanSpeed_value FanSpeed_Medium = 1"
| "FanSpeed_value FanSpeed_High = 2"
| "FanSpeed_value FanSpeed_Auto = 3"

fun SwingMode_value :: "SwingMode \<Rightarrow> int" where
  "SwingMode_value SwingMode_On = 0"
| "SwingMode_value SwingMode_Off = 1"

fun Power_value :: "Power \<Rightarrow> int" where
  "Power_value Power_On = 1"
| "Power_value Power_Off = 0"

section \<open>Python values and errors\<close>

text \<open>
  Every exception the code can raise is a value.  The places that raise
  \<^verbatim>\<open>ValueError\<close> are told apart by their message: \<^verbatim>\<open>int()\<close> on a string that is no
  literal, \<^verbatim>\<open>int()\<close> on the float NaN, and the lookup of a member by value,
  \<^verbatim>\<open>FanSpeed(n)\<close> and \<^verbatim>\<open>OperationMode(n)\<close>, on a number that no member has.
\<close>

datatype value_error =
    invalid_literal_for_int
  | cannot_convert_float_NaN_to_integer
  | not_a_valid_FanSpeed int
  | not_a_valid_OperationMode int

datatype error =
    TypeError | KeyError | IndexError | OverflowError | ValueError value_error

definition bind :: "error + 'a \<Rightarrow> ('a \<Rightarrow> error + 'b) \<Rightarrow> error + 'b" where
  "bind r f = (case r of Inl e \<Rightarrow> Inl e | Inr x \<Rightarrow> f x)"

text \<open>
  The objects that reach \<^verbatim>\<open>==\<close> and \<^verbatim>\<open>str.replace\<close> in \<^verbatim>\<open>send_configuration\<close>:
  booleans, integers, strings and members of the four enum classes.
\<close>

datatype pyobj =
    PyBool bool
  | PyInt int
  | PyStr string
  | PyPower Power
  | PyOperationMode OperationMode
  | PyFanSpeed FanSpeed
  | PySwingMode SwingMode

text \<open>
  Python's \<^verbatim>\<open>==\<close>.  \<^verbatim>\<open>bool\<close> is a subclass of \<^verbatim>\<open>int\<close>, so \<^verbatim>\<open>True == 1\<close>.  The classes
  of this file derive from \<^verbatim>\<open>enum.Enum\<close>, not \<^verbatim>\<open>IntEnum\<close>: a member is equal to
  itself only, and never to a number or a boolean.
\<close>

fun py_eq :: "pyobj \<Rightarrow> pyobj \<Rightarrow> bool" where
  "py_eq (PyBool a) (PyBool b) = (a = b)"
| "py_eq (PyBool a) (PyInt n) = ((if a then 1 else 0) = n)"
| "py_eq (PyInt n) (PyBool a) = (n = (if a then 1 else 0))"
| "py_eq (PyInt m) (PyInt n) = (m = n)"
| "py_eq (PyStr s) (PyStr t) = (s = t)"
| "py_eq (PyPower p) (PyPower q) = (p = q)"
| "py_eq (PyOperationMode p) (PyOperationMode q) = (p = q)"
| "py_eq (PyFanSpeed p) (PyFanSpeed q) = (p = q)"
| "py_eq (PySwingMode p) (PySwingMode q) = (p = q)"
| "py_eq _ _ = False"

section \<open>Strings\<close>

text \<open>
  \<^verbatim>\<open>s.replace(old, new)\<close> on strings: every occurrence of \<^verbatim>\<open>old\<close>, found from the
  left and without overlap, becomes \<^verbatim>\<open>new\<close>.  An empty \<^verbatim>\<open>old\<close> matches before every
  character and at the end.
\<close>

function replace_all :: "string \<Rightarrow> string \<Rightarrow> string \<Rightarrow> string" where
  "replace_all [] old new = (if old = [] then new else [])"
| "replace_all (c # cs) old new =
     (if old = [] then new @ c # replace_all cs old new
      else if take (length old) (c # cs) = old
        then new @ replace_all (drop (length old) (c # cs)) old new
      else c # replace_all cs old new)"
  by pat_completeness auto
termination
  by (relation "measure (\<lambda>(s, old, new). length s)") auto

text \<open>
  The method as the interpreter checks it: the second argument must be a \<^verbatim>\<open>str\<close>,
  anything else raises \<^verbatim>\<open>TypeError\<close> (``replace() argument 2 must be str, not int'').
  The first argument is a string literal at every call of the source.
\<close>

definition replace :: "string \<Rightarrow> string \<Rightarrow> pyobj \<Rightarrow> error + string" where
  "replace s old new =
     (case new of PyStr n \<Rightarrow> Inr (replace_all s old n) | _ \<Rightarrow> Inl TypeError)"

text \<open>\<^verbatim>\<open>s[a:b]\<close> for literal bounds \<^verbatim>\<open>0 <= a <= b\<close>: a slice never raises, it is cut
  to the string.\<close>

definition slice :: "'a list \<Rightarrow> nat \<Rightarrow> nat \<Rightarrow> 'a list" where
  "slice s a b = drop a (take b s)"

text \<open>\<^verbatim>\<open>xs[i]\<close> for a literal index \<^verbatim>\<open>i >= 0\<close>.\<close>

definition getitem :: "'a list \<Rightarrow> nat \<Rightarrow> error + 'a" where
  "getitem xs i = (if i < length xs then Inr (xs ! i) else Inl IndexError)"

text \<open>\<^verbatim>\<open>str(x)\<close> of a string is the string.\<close>

definition str :: "string \<Rightarrow> string" where
  "str s = s"

text \<open>\<^verbatim>\<open>s.upper()\<close>; the source calls it on the output of \<^verbatim>\<open>hex\<close> only, which is
  ASCII.\<close>

definition upper_char :: "char \<Rightarrow> char" where
  "upper_char c =
     (let n = of_char c :: nat in if 97 \<le> n \<and> n \<le> 122 then char_of (n - 32) else c)"

definition upper :: "string \<Rightarrow> string" where
  "upper s = map upper_char s"

section \<open>Numbers\<close>

text \<open>
  \<^verbatim>\<open>hex(n)\<close>: an optional minus sign, \<^verbatim>\<open>0x\<close>, and the lowercase digits of \<^verbatim>\<open>abs(n)\<close>
  without leading zeros.
\<close>

definition hex_char :: "nat \<Rightarrow> char" where
  "hex_char d = ''0123456789abcdef'' ! d"

fun hex_digits :: "nat \<Rightarrow> string" where
  "hex_digits n =
     (if n < 16 then [hex_char n] else hex_digits (n div 16) @ [hex_char (n mod 16)])"

definition hex :: "int \<Rightarrow> string" where
  "hex n = (if n < 0 then ''-0x'' else ''0x'') @ hex_digits (nat \<bar>n\<bar>)"

text \<open>
  A Python \<^verbatim>\<open>float\<close>: a finite one is given by its exact value, and there are the
  two infinities and NaN.  An \<^verbatim>\<open>int\<close> passed as the temperature is among the finite
  values.  \<^verbatim>\<open>int(x)\<close> rounds a finite float toward zero, raises \<^verbatim>\<open>OverflowError\<close>
  on an infinity and \<^verbatim>\<open>ValueError\<close> on NaN.
\<close>

datatype pyfloat = Finite real | PosInf | NegInf | NaN

fun int_of_float :: "pyfloat \<Rightarrow> error + int" where
  "int_of_float (Finite x) = Inr (if 0 \<le> x then \<lfloor>x\<rfloor> else \<lceil>x\<rceil>)"
| "int_of_float PosInf = Inl OverflowError"
| "int_of_float NegInf = Inl OverflowError"
| "int_of_float NaN = Inl (ValueError cannot_convert_float_NaN_to_integer)"

text \<open>
  \<^verbatim>\<open>int(s, base)\<close> of a string (Python 3.6 and later), for base 10 and 16: white
  space around the literal is dropped, a sign may lead, base 16 admits the prefix
  \<^verbatim>\<open>0x\<close>, and single underscores may stand between digits.  Anything else raises
  \<^verbatim>\<open>ValueError\<close>.  \<^verbatim>\<open>digit_value\<close> is the interpreter's table of digits, 37 for a
  character that is no digit of any base.  A character is its code point, up to
  255; the white space that \<^verbatim>\<open>int\<close> drops is then tab, line feed, vertical tab,
  form feed, carriage return and space, and beyond ASCII U+0085 and U+00A0.
\<close>

definition digit_value :: "char \<Rightarrow> nat" where
  "digit_value c =
     (let n = of_char c :: nat in
      if 48 \<le> n \<and> n \<le> 57 then n - 48
      else if 97 \<le> n \<and> n \<le> 122 then n - 87
      else if 65 \<le> n \<and> n \<le> 90 then n - 55
      else 37)"

definition isspace :: "char \<Rightarrow> bool" where
  "isspace c =
     List.member [CHR 0x09, CHR 0x0A, CHR 0x0B, CHR 0x0C, CHR 0x0D, CHR 0x20, CHR 0x85, CHR 0xA0] c"

fun double_underscore :: "string \<Rightarrow> bool" where
  "double_underscore (a # b # cs) =
     ((a = CHR ''_'' \<and> b = CHR ''_'') \<or> double_underscore (b # cs))"
| "double_underscore _ = False"

definition int_of_str :: "nat \<Rightarrow> string \<Rightarrow> error + int" where
  "int_of_str base s =
     (let s1 = dropWhile isspace s;
          neg = (take 1 s1 = ''-'');
          s2 = (if take 1 s1 = ''+'' \<or> take 1 s1 = ''-'' then drop 1 s1 else s1);
          s3 = (if base = 16 \<and> (take 2 s2 = ''0x'' \<or> take 2 s2 = ''0X'')
                then (if take 1 (drop 2 s2) = ''_'' then drop 3 s2 else drop 2 s2)
                else s2);
          body = takeWhile (\<lambda>c. digit_value c < base \<or> c = CHR ''_'') s3;
          rest = dropWhile (\<lambda>c. digit_value c < base \<or> c = CHR ''_'') s3;
          digits = filter (\<lambda>c. c \<noteq> CHR ''_'') body
      in if digits \<noteq> [] \<and> take 1 body \<noteq> ''_'' \<and> take 1 (rev body) \<noteq> ''_''
            \<and> \<not> double_underscore body \<and> dropWhile isspace rest = []
         then Inr ((if neg then - 1 else 1)
                    * int (foldl (\<lambda>a c. a * base + digit_value c) 0 digits))
         else Inl (ValueError invalid_literal_for_int))"

text \<open>\<^verbatim>\<open>FanSpeed(n)\<close> and \<^verbatim>\<open>OperationMode(n)\<close>: the member whose value is \<^verbatim>\<open>n\<close>, or
  \<^verbatim>\<open>ValueError\<close>.\<close>

definition FanSpeed_of :: "int \<Rightarrow> error + FanSpeed" where
  "FanSpeed_of n =
     (if n = 0 then Inr FanSpeed_Low
      else if n = 1 then Inr FanSpeed_Medium
      else if n = 2 then Inr FanSpeed_High
      else if n = 3 then Inr FanSpeed_Auto
      else Inl (ValueError (not_a_valid_FanSpeed n)))"

definition OperationMode_of :: "int \<Rightarrow> error + OperationMode" where
  "OperationMode_of n =
     (if n = 0 then Inr OperationMode_Heat
      else if n = 1 then Inr OperationMode_Cool
      else if n = 2 then Inr OperationMode_Auto
      else if n = 3 then Inr OperationMode_Dehumidify
      else if n = 4 then Inr OperationMode_Ventilate
      else Inl (ValueError (not_a_valid_OperationMode n)))"

section \<open>Template registry\<close>

text \<open>
  \<^verbatim>\<open>DEVICE_COMMAND_PRESETS\<close>, a dictionary of dictionaries, in the order of the
  source.  \<^verbatim>\<open>k in d\<close> and \<^verbatim>\<open>d[k]\<close> read it; a missing key raises \<^verbatim>\<open>KeyError\<close>.
\<close>

definition STORAGE_SLOT_ID :: nat where
  "STORAGE_SLOT_ID = 30"

definition POWER_OFF :: string where
  "POWER_OFF = ''off''"

definition DEVICE_COMMAND_PRESETS :: "(string \<times> (string \<times> string) list) list" where
  "DEVICE_COMMAND_PRESETS =
     [(''fallback'', [(''deviceType'', ''generic''), (''base'', ''pomowiswtta0'')]),
      (''0180111111'', [(''deviceType'', ''media_1''), (''base'', ''pomowiswtt02'')]),
      (''0180222221'', [(''deviceType'', ''gree_1''), (''base'', ''pomowiswtt02'')]),
      (''0100010727'',
         [(''deviceType'', ''gree_2''),
          (''base'', ''pomowiswtt1100190t1t205002102000t7t0190t1t207002000000t4t0''),
          (''off'', ''01011101004000205002112000D04000207002000000A0'')]),
      (''0100004795'', [(''deviceType'', ''gree_8''), (''base'', ''pomowiswtt0100090900005002'')]),
      (''0180333331'', [(''deviceType'', ''haier_1''), (''base'', ''pomowiswtt12'')]),
      (''0180666661'', [(''deviceType'', ''aux_1''), (''base'', ''pomowiswtt12'')]),
      (''0180777771'', [(''deviceType'', ''chigo_1''), (''base'', ''pomowiswtt12'')])]"

definition contains :: "('k \<times> 'v) list \<Rightarrow> 'k \<Rightarrow> bool" where
  "contains d k = (map_of d k \<noteq> None)"

definition lookup :: "('k \<times> 'v) list \<Rightarrow> 'k \<Rightarrow> error + 'v" where
  "lookup d k = (case map_of d k of None \<Rightarrow> Inl KeyError | Some v \<Rightarrow> Inr v)"

section \<open>Command encoder\<close>

text \<open>
  \<^verbatim>\<open>send_command\<close> hands \<^verbatim>\<open>str(command)\<close> to the transport (\<^verbatim>\<open>Device.send\<close>, which
  is not part of this file).  It is modelled by the command string the transport
  receives.
\<close>

definition send_command :: "string \<Rightarrow> error + string" where
  "send_command command = Inr (str command)"

text \<open>The parameter \<^verbatim>\<open>power\<close> is written \<open>power_arg\<close>, since \<open>power\<close> is
  HOL's exponentiation.  The test of the static turn-off command: \<^verbatim>\<open>and\<close> evaluates from the left
  and stops at the first false operand.\<close>

definition static_off_available :: "string \<Rightarrow> Power \<Rightarrow> bool" where
  "static_off_available model power_arg =
     (py_eq (PyPower power_arg) (PyBool False) \<and> contains DEVICE_COMMAND_PRESETS model \<and>
      (case map_of DEVICE_COMMAND_PRESETS model of
         None \<Rightarrow> False | Some entry \<Rightarrow> contains entry POWER_OFF))"

text \<open>The template of the model, or of \<^verbatim>\<open>fallback\<close>, after the model id.\<close>

definition base_configuration :: "string \<Rightarrow> error + string" where
  "base_configuration model =
     (if contains DEVICE_COMMAND_PRESETS model
      then bind (lookup DEVICE_COMMAND_PRESETS model)
             (\<lambda>entry. bind (lookup entry ''base'') (\<lambda>b. Inr (model @ b)))
      else bind (lookup DEVICE_COMMAND_PRESETS ''fallback'')
             (\<lambda>entry. bind (lookup entry ''base'') (\<lambda>b. Inr (model @ b))))"

text \<open>\<^verbatim>\<open>hex(int(target_temperature))[2:]\<close>, the text that stands for \<^verbatim>\<open>tt\<close>.\<close>

definition tt_digits :: "pyfloat \<Rightarrow> error + string" where
  "tt_digits target_temperature =
     bind (int_of_float target_temperature) (\<lambda>i. Inr (drop 2 (hex i)))"

text \<open>
  \<^verbatim>\<open>temperature = (k + int(target_temperature) - 17) % 16\<close> and then
  \<^verbatim>\<open>hex(temperature)[2:].upper()\<close>, for \<^verbatim>\<open>k\<close> = 1, 4 and 7.  Python's \<^verbatim>\<open>%\<close> with a
  positive right operand is \<open>mod\<close> on \<open>int\<close>.
\<close>

definition temperature_digit :: "int \<Rightarrow> pyfloat \<Rightarrow> error + string" where
  "temperature_digit k target_temperature =
     bind (int_of_float target_temperature)
       (\<lambda>i. Inr (upper (drop 2 (hex ((k + i - 17) mod 16)))))"

definition send_configuration ::
  "string \<Rightarrow> Power \<Rightarrow> OperationMode \<Rightarrow> pyfloat \<Rightarrow> FanSpeed \<Rightarrow> SwingMode
     \<Rightarrow> error + string" where
  "send_configuration model power_arg operation_mode target_temperature fan_speed swing_mode =
     (if static_off_available model power_arg
      then bind (lookup DEVICE_COMMAND_PRESETS model)
             (\<lambda>entry. bind (lookup entry POWER_OFF) (\<lambda>off. send_command (model @ off)))
      else
        bind (base_configuration model) (\<lambda>configuration.
        bind (replace configuration ''po'' (PyInt (Power_value power_arg))) (\<lambda>configuration.
        bind (replace configuration ''mo'' (PyInt (OperationMode_value operation_mode))) (\<lambda>configuration.
        bind (replace configuration ''wi'' (PyInt (FanSpeed_value fan_speed))) (\<lambda>configuration.
        bind (replace configuration ''sw'' (PyInt (SwingMode_value swing_mode))) (\<lambda>configuration.
        bind (tt_digits target_temperature) (\<lambda>digits.
        bind (replace configuration ''tt'' (PyStr digits)) (\<lambda>configuration.
        bind (temperature_digit 1 target_temperature) (\<lambda>temperature.
        bind (replace configuration ''t1t'' (PyStr temperature)) (\<lambda>configuration.
        bind (temperature_digit 4 target_temperature) (\<lambda>temperature.
        bind (replace configuration ''t4t'' (PyStr temperature)) (\<lambda>configuration.
        bind (temperature_digit 7 target_temperature) (\<lambda>temperature.
        bind (replace configuration ''t7t'' (PyStr temperature)) (\<lambda>configuration.
        send_command configuration))))))))))))))"

section \<open>Status decoder\<close>

text \<open>
  \<^verbatim>\<open>class AirConditioningCompanionStatus\<close>: the constructor stores the response of
  \<^verbatim>\<open>get_model_and_state\<close> as it is, each property reads it anew.  The property
  \<^verbatim>\<open>power\<close> is \<open>power_state\<close> here.
\<close>

record AirConditioningCompanionStatus =
  data :: "string list"

definition AirConditioningCompanionStatus_init :: "string list \<Rightarrow> AirConditioningCompanionStatus" where
  "AirConditioningCompanionStatus_init d = \<lparr>data = d\<rparr>"

definition air_condition_power :: "AirConditioningCompanionStatus \<Rightarrow> error + string" where
  "air_condition_power self = bind (getitem (data self) 2) (\<lambda>d2. Inr (str d2))"

definition air_condition_model :: "AirConditioningCompanionStatus \<Rightarrow> error + string" where
  "air_condition_model self =
     bind (getitem (data self) 0) (\<lambda>d0. Inr (str (slice d0 0 2 @ slice d0 8 16)))"

definition power_state :: "AirConditioningCompanionStatus \<Rightarrow> error + string" where
  "power_state self =
     bind (getitem (data self) 1)
       (\<lambda>d1. Inr (if slice d1 2 3 = ''1'' then ''on'' else ''off''))"

definition is_on :: "AirConditioningCompanionStatus \<Rightarrow> error + bool" where
  "is_on self = bind (power_state self) (\<lambda>p. Inr (p = ''on''))"

definition temperature :: "AirConditioningCompanionStatus \<Rightarrow> error + int" where
  "temperature self = bind (getitem (data self) 1) (\<lambda>d1. int_of_str 16 (slice d1 6 8))"

definition swing_mode :: "AirConditioningCompanionStatus \<Rightarrow> error + bool" where
  "swing_mode self = bind (getitem (data self) 1) (\<lambda>d1. Inr (slice d1 5 6 = ''0''))"

text \<open>
  \<^verbatim>\<open>speed\<close> is an \<^verbatim>\<open>int\<close> once \<^verbatim>\<open>int()\<close> has returned, so \<^verbatim>\<open>speed is not None\<close>
  holds and the final \<^verbatim>\<open>return None\<close> is never reached; the same for \<^verbatim>\<open>mode\<close>.
\<close>

definition fan_speed :: "AirConditioningCompanionStatus \<Rightarrow> error + FanSpeed option" where
  "fan_speed self =
     bind (getitem (data self) 1)
       (\<lambda>d1. bind (int_of_str 10 (slice d1 4 5))
         (\<lambda>speed. bind (FanSpeed_of speed) (\<lambda>m. Inr (Some m))))"

definition mode :: "AirConditioningCompanionStatus \<Rightarrow> error + OperationMode option" where
  "mode self =
     bind (getitem (data self) 1)
       (\<lambda>d1. bind (int_of_str 10 (slice d1 3 4))
         (\<lambda>mode. bind (OperationMode_of mode) (\<lambda>m. Inr (Some m))))"

section \<open>Vocabulary of the specification\<close>

text \<open>
  ``The lowercase hexadecimal digits of \<open>n\<close>, without leading zero-padding'': a
  non-empty string over \<^verbatim>\<open>0123456789abcdef\<close> whose value in base 16 is \<open>n\<close> and
  which starts with \<^verbatim>\<open>0\<close> only when it is the single digit \<^verbatim>\<open>0\<close>.
\<close>

definition lower_hex_char :: "char \<Rightarrow> bool" where
  "lower_hex_char c = List.member ''0123456789abcdef'' c"

definition lower_hex_digits_of :: "string \<Rightarrow> nat \<Rightarrow> bool" where
  "lower_hex_digits_of s n =
     (s \<noteq> [] \<and> list_all lower_hex_char s
      \<and> foldl (\<lambda>a c. a * 16 + digit_value c) 0 s = n
      \<and> (length s = 1 \<or> take 1 s \<noteq> ''0''))"

text \<open>``An occurrence of the token \<open>old\<close> in \<open>s\<close>'': \<open>old\<close> starts at some position
  of \<open>s\<close>.\<close>

fun occurs :: "string \<Rightarrow> string \<Rightarrow> bool" where
  "occurs old [] = (old = [])"
| "occurs old (c # cs) = (take (length old) (c # cs) = old \<or> occurs old cs)"

section \<open>Facts about the builtins\<close>

declare hex_digits.simps [simp del]

lemma below_16_cases:
  "m < 16 \<Longrightarrow> m \<in> {0, 1, 2, 3, 4, 5, 6, 7, 8, 9, 10, 11, 12, 13, 14, 15::nat}"
  by simp arith

lemma upper_hex_char:
  assumes "m < 16"
  shows "upper_char (hex_char m) = ''0123456789ABCDEF'' ! m"
  using below_16_cases [OF assms] by (auto simp: hex_char_def upper_char_def char_of_eq_iff)

lemma digit_value_hex_char:
  assumes "m < 16"
  shows "digit_value (hex_char m) = m"
  using below_16_cases [OF assms] by (auto simp: hex_char_def digit_value_def)

lemma hex_char_lower:
  assumes "m < 16"
  shows "lower_hex_char (hex_char m)"
  using below_16_cases [OF assms] by (auto simp: hex_char_def lower_hex_char_def)

lemma hex_char_zero:
  assumes "m < 16" and "hex_char m = CHR ''0''"
  shows "m = 0"
  using below_16_cases [OF assms(1)] assms(2) by (auto simp: hex_char_def)

lemma hex_digits_nonempty: "hex_digits n \<noteq> []"
  by (subst hex_digits.simps) simp

lemma hex_digits_single: "n < 16 \<Longrightarrow> hex_digits n = [hex_char n]"
  by (subst hex_digits.simps) simp

lemma hex_digits_lower: "list_all lower_hex_char (hex_digits n)"
proof (induction n rule: hex_digits.induct)
  case (1 n)
  show ?case
  proof (cases "n < 16")
    case True
    then show ?thesis
      by (subst hex_digits.simps) (simp add: hex_char_lower)
  next
    case False
    with 1 show ?thesis
      by (subst hex_digits.simps) (simp add: hex_char_lower)
  qed
qed

lemma hex_digits_value: "foldl (\<lambda>a c. a * 16 + digit_value c) 0 (hex_digits n) = n"
proof (induction n rule: hex_digits.induct)
  case (1 n)
  show ?case
  proof (cases "n < 16")
    case True
    then show ?thesis
      by (subst hex_digits.simps) (simp add: digit_value_hex_char)
  next
    case False
    with 1 show ?thesis
      by (subst hex_digits.simps) (simp add: digit_value_hex_char)
  qed
qed

lemma hex_digits_leading: "0 < n \<Longrightarrow> take 1 (hex_digits n) \<noteq> ''0''"
proof (induction n rule: hex_digits.induct)
  case (1 n)
  show ?case
  proof (cases "n < 16")
    case True
    with "1.prems" show ?thesis
      by (subst hex_digits.simps) (auto dest: hex_char_zero)
  next
    case False
    then have "0 < n div 16" by simp
    with 1 False have "take 1 (hex_digits (n div 16)) \<noteq> ''0''" by simp
    with False show ?thesis
      using hex_digits_nonempty [of "n div 16"]
      by (subst hex_digits.simps) (cases "hex_digits (n div 16)", auto)
  qed
qed

lemma hex_digits_spec: "lower_hex_digits_of (hex_digits n) n"
proof (cases "n = 0")
  case True
  then show ?thesis
    by (simp add: lower_hex_digits_of_def hex_digits_single hex_char_def digit_value_def
        lower_hex_char_def)
next
  case False
  then show ?thesis
    using hex_digits_leading [of n] hex_digits_lower [of n]
    by (simp add: lower_hex_digits_of_def hex_digits_nonempty hex_digits_value)
qed

lemma hex_small: "0 \<le> n \<Longrightarrow> n < 16 \<Longrightarrow> hex n = ''0x'' @ [hex_char (nat n)]"
  by (simp add: hex_def hex_digits_single)

section \<open>The command encoder raises before it substitutes\<close>

text \<open>
  A member of \<^verbatim>\<open>Power\<close> is never equal to \<^verbatim>\<open>False\<close>, so the test of the static
  turn-off command fails for every argument of the declared type.
\<close>

lemma py_eq_enum_bool: "py_eq (PyPower p) (PyBool b) = False"
  by simp

lemma static_off_never: "static_off_available model p = False"
  by (simp add: static_off_available_def)

text \<open>\<^verbatim>\<open>str.replace\<close> refuses the \<^verbatim>\<open>int\<close> that \<^verbatim>\<open>.value\<close> gives.\<close>

lemma replace_int_raises: "replace s old (PyInt n) = Inl TypeError"
  by (simp add: replace_def)

text \<open>The template lookup returns for every model id: every entry of the registry
  has a \<^verbatim>\<open>base\<close>, and \<^verbatim>\<open>fallback\<close> is an entry.\<close>

lemma base_configuration_returns: "\<exists>cfg. base_configuration model = Inr cfg"
  by (simp add: base_configuration_def contains_def lookup_def bind_def DEVICE_COMMAND_PRESETS_def)

lemma base_configuration_unknown:
  "\<not> contains DEVICE_COMMAND_PRESETS model \<Longrightarrow>
     base_configuration model = Inr (model @ ''pomowiswtta0'')"
  by (simp add: base_configuration_def lookup_def bind_def DEVICE_COMMAND_PRESETS_def)

text \<open>
  C1.  The specification has \<^verbatim>\<open>send_configuration("0100010727", Power.Off, ...)\<close> return
  the model id followed by the \<^verbatim>\<open>off\<close> template, whatever the other arguments.
  The code compares the member with \<^verbatim>\<open>False\<close>: the test of the static turn-off
  command is false for \<^verbatim>\<open>Power.Off\<close>, the call goes on to the base template and
  raises \<^verbatim>\<open>TypeError\<close> at \<^verbatim>\<open>replace('po', 0)\<close>, for every operation mode, target
  temperature, fan speed and swing mode.
\<close>

theorem power_off_shortcut_skipped:
  "static_off_available ''0100010727'' Power_Off = False
   \<and> send_configuration ''0100010727'' Power_Off m t f s = Inl TypeError"
proof -
  have "base_configuration ''0100010727'' =
        Inr ''0100010727pomowiswtt1100190t1t205002102000t7t0190t1t207002000000t4t0''"
    by (simp add: base_configuration_def contains_def lookup_def bind_def
        DEVICE_COMMAND_PRESETS_def)
  then show ?thesis
    by (simp add: send_configuration_def static_off_never bind_def replace_int_raises)
qed

text \<open>
  C2.  The specification has the encoder replace \<^verbatim>\<open>po\<close>, \<^verbatim>\<open>mo\<close>, \<^verbatim>\<open>wi\<close> and \<^verbatim>\<open>sw\<close>
  by the decimal strings of the enum codes and return the substituted string
  without error.  The code passes the integer \<^verbatim>\<open>.value\<close> itself to \<^verbatim>\<open>str.replace\<close>:
  for every model id and every combination of members, with any target
  temperature, the call raises \<^verbatim>\<open>TypeError\<close> and returns no string.
\<close>

theorem send_configuration_raises_TypeError:
  "send_configuration model p m t f s = Inl TypeError"
proof -
  obtain cfg where "base_configuration model = Inr cfg"
    using base_configuration_returns by blast
  then show ?thesis
    by (simp add: send_configuration_def static_off_never bind_def replace_int_raises)
qed

text \<open>
  C5.  For a model id that the registry does not have, here \<^verbatim>\<open>9999999999\<close>, the
  template lookup does not fail and gives the \<^verbatim>\<open>fallback\<close> template after the model
  id, as the specification says; the token substitution that the specification
  expects to follow raises \<^verbatim>\<open>TypeError\<close> at its first step.
\<close>

theorem unknown_model_uses_fallback_then_raises:
  "base_configuration ''9999999999'' = Inr ''9999999999pomowiswtta0''
   \<and> send_configuration ''9999999999'' Power_On OperationMode_Cool (Finite 24) FanSpeed_Auto
       SwingMode_Off = Inl TypeError"
proof -
  have b: "base_configuration ''9999999999'' = Inr ''9999999999pomowiswtta0''"
    by (simp add: base_configuration_def contains_def lookup_def bind_def
        DEVICE_COMMAND_PRESETS_def)
  then show ?thesis
    by (simp add: send_configuration_def static_off_never bind_def replace_int_raises)
qed

section \<open>The temperature substitutions are never reached\<close>

text \<open>
  C3.  The specification has the encoder replace every \<^verbatim>\<open>tt\<close> by the lowercase
  hexadecimal digits of the floor of the target temperature, a single digit below
  16.  The statement that would do so comes after \<^verbatim>\<open>replace('po', power.value)\<close>,
  which raises: for model \<^verbatim>\<open>0180111111\<close>, whose template is \<^verbatim>\<open>pomowiswtt02\<close>, the
  call raises \<^verbatim>\<open>TypeError\<close> at every target temperature and no \<^verbatim>\<open>tt\<close> is replaced;
  at 10 degrees the string \<^verbatim>\<open>01801111111131a02\<close>, which the steps of the
  specification give, is not returned.
\<close>

theorem tt_never_substituted:
  "base_configuration ''0180111111'' = Inr ''0180111111pomowiswtt02''
   \<and> send_configuration ''0180111111'' Power_On OperationMode_Cool t FanSpeed_Auto SwingMode_Off
       = Inl TypeError
   \<and> send_configuration ''0180111111'' Power_On OperationMode_Cool (Finite 10) FanSpeed_Auto
       SwingMode_Off \<noteq> Inr ''01801111111131a02''"
proof -
  have b: "base_configuration ''0180111111'' = Inr ''0180111111pomowiswtt02''"
    by (simp add: base_configuration_def contains_def lookup_def bind_def
        DEVICE_COMMAND_PRESETS_def)
  have r: "send_configuration ''0180111111'' Power_On OperationMode_Cool x FanSpeed_Auto
      SwingMode_Off = Inl TypeError" for x
    using b by (simp add: send_configuration_def static_off_never bind_def replace_int_raises)
  show ?thesis
    using b by (simp add: r)
qed

text \<open>
  C4.  The specification has the encoder put, for \<^verbatim>\<open>t1t\<close>, \<^verbatim>\<open>t4t\<close> and \<^verbatim>\<open>t7t\<close>, the
  uppercase hexadecimal digit of \<open>(k + \<lfloor>target_temperature\<rfloor> - 17) mod 16\<close> with
  \<open>k\<close> = 1, 4, 7, that is \<^verbatim>\<open>1\<close>, \<^verbatim>\<open>4\<close> and \<^verbatim>\<open>7\<close> at 17 degrees.  Only the template of
  model \<^verbatim>\<open>0100010727\<close> has these tokens, and for that model the call raises
  \<^verbatim>\<open>TypeError\<close> at every power, operation mode, target temperature, fan speed and
  swing mode, before any of the three digits is computed; at 17 degrees the
  string that the steps of the specification give, with \<^verbatim>\<open>1\<close>, \<^verbatim>\<open>4\<close> and \<^verbatim>\<open>7\<close> in
  the places of the tokens, is not returned.
\<close>

theorem temperature_digits_never_substituted:
  "base_configuration ''0100010727''
     = Inr ''0100010727pomowiswtt1100190t1t205002102000t7t0190t1t207002000000t4t0''
   \<and> send_configuration ''0100010727'' p m t f s = Inl TypeError
   \<and> send_configuration ''0100010727'' Power_On OperationMode_Cool (Finite 17) FanSpeed_Auto
       SwingMode_Off \<noteq> Inr ''01000107271131111100190120500210200070190120700200000040''"
proof -
  have b: "base_configuration ''0100010727''
      = Inr ''0100010727pomowiswtt1100190t1t205002102000t7t0190t1t207002000000t4t0''"
    by (simp add: base_configuration_def contains_def lookup_def bind_def
        DEVICE_COMMAND_PRESETS_def)
  have r: "send_configuration ''0100010727'' q n x g w = Inl TypeError" for q n x g w
    using b by (simp add: send_configuration_def static_off_never bind_def replace_int_raises)
  show ?thesis
    using b by (simp add: r)
qed

section \<open>What the temperature statements compute when they are reached\<close>

text \<open>
  The statements after the one that raises are the attempt the specification
  describes.  For a finite target temperature from 0 on, the text for \<^verbatim>\<open>tt\<close> is
  the lowercase hexadecimal number of its floor, without padding, and replacing
  \<^verbatim>\<open>tt\<close> by it leaves no \<^verbatim>\<open>tt\<close>; the three digits are single uppercase
  hexadecimal digits.  On an infinity or NaN \<^verbatim>\<open>int()\<close> raises.
\<close>

lemma tt_digits_nonneg:
  "0 \<le> t \<Longrightarrow> tt_digits (Finite t) = Inr (hex_digits (nat \<lfloor>t\<rfloor>))"
  by (simp add: tt_digits_def bind_def hex_def)

lemma tt_digits_not_finite:
  "tt_digits PosInf = Inl OverflowError" "tt_digits NegInf = Inl OverflowError"
  "tt_digits NaN = Inl (ValueError cannot_convert_float_NaN_to_integer)"
  by (simp_all add: tt_digits_def bind_def)

text \<open>
  Replacing \<^verbatim>\<open>tt\<close> by a non-empty text without \<^verbatim>\<open>t\<close> leaves no \<^verbatim>\<open>tt\<close> behind.
\<close>

lemma occurs_tt_append:
  "CHR ''t'' \<notin> set new \<Longrightarrow> occurs ''tt'' (new @ x) = occurs ''tt'' x"
  by (induction new) auto

lemma replace_all_tt_invariant:
  assumes "CHR ''t'' \<notin> set new" and "new \<noteq> []"
  shows "\<not> occurs ''tt'' (replace_all s ''tt'' new)
         \<and> (take 1 (replace_all s ''tt'' new) = ''t'' \<longrightarrow> take 1 s = ''t'')"
proof (induction "length s" arbitrary: s rule: less_induct)
  case less
  show ?case
  proof (cases s)
    case Nil
    then show ?thesis by simp
  next
    case (Cons c cs)
    show ?thesis
    proof (cases "take 2 s = ''tt''")
      case True
      then obtain rest where s: "s = CHR ''t'' # CHR ''t'' # rest"
        using Cons by (cases cs) auto
      then have r: "replace_all s ''tt'' new = new @ replace_all rest ''tt'' new"
        by simp
      have "length rest < length s" using s by simp
      then have ih: "\<not> occurs ''tt'' (replace_all rest ''tt'' new)"
        using less by blast
      have "take 1 (new @ replace_all rest ''tt'' new) \<noteq> ''t''"
        using assms by (cases new) auto
      then show ?thesis
        using ih assms(1) s by (simp add: r occurs_tt_append)
    next
      case False
      then have n: "\<not> (c = CHR ''t'' \<and> take 1 cs = ''t'')"
        using Cons by (cases cs) auto
      then have r: "replace_all s ''tt'' new = c # replace_all cs ''tt'' new"
        using Cons by auto
      have "length cs < length s" using Cons by simp
      then have ih: "\<not> occurs ''tt'' (replace_all cs ''tt'' new)"
        "take 1 (replace_all cs ''tt'' new) = ''t'' \<longrightarrow> take 1 cs = ''t''"
        using less by blast+
      show ?thesis
        using ih n Cons by (cases "replace_all cs ''tt'' new") (auto simp: r)
    qed
  qed
qed

lemma lower_hex_no_t: "list_all lower_hex_char s \<Longrightarrow> CHR ''t'' \<notin> set s"
  by (induction s) (auto simp: lower_hex_char_def)

lemma tt_statement:
  assumes "0 \<le> t"
  shows "tt_digits (Finite t) = Inr (hex_digits (nat \<lfloor>t\<rfloor>))
       \<and> \<not> occurs ''tt'' (replace_all cfg ''tt'' (hex_digits (nat \<lfloor>t\<rfloor>)))
       \<and> lower_hex_digits_of (hex_digits (nat \<lfloor>t\<rfloor>)) (nat \<lfloor>t\<rfloor>)
       \<and> (t < 16 \<longrightarrow> length (hex_digits (nat \<lfloor>t\<rfloor>)) = 1)"
proof -
  have "t < 16 \<longrightarrow> nat \<lfloor>t\<rfloor> < 16"
    using assms by (simp add: floor_less_iff nat_less_iff)
  moreover have "\<not> occurs ''tt'' (replace_all cfg ''tt'' (hex_digits (nat \<lfloor>t\<rfloor>)))"
    using replace_all_tt_invariant [of "hex_digits (nat \<lfloor>t\<rfloor>)" cfg]
      lower_hex_no_t [of "hex_digits (nat \<lfloor>t\<rfloor>)"]
    by (simp add: hex_digits_lower hex_digits_nonempty)
  ultimately show ?thesis
    using assms by (auto simp: tt_digits_nonneg hex_digits_spec hex_digits_single)
qed

lemma temperature_digit_finite:
  "temperature_digit k (Finite t) =
     Inr [''0123456789ABCDEF'' ! nat ((k + (if 0 \<le> t then \<lfloor>t\<rfloor> else \<lceil>t\<rceil>) - 17) mod 16)]"
proof -
  let ?n = "(k + (if 0 \<le> t then \<lfloor>t\<rfloor> else \<lceil>t\<rceil>) - 17) mod 16"
  have "0 \<le> ?n" "?n < 16" by simp_all
  then have "upper (drop 2 (hex ?n)) = [''0123456789ABCDEF'' ! nat ?n]"
    by (simp add: hex_small upper_def upper_hex_char)
  then show ?thesis
    by (simp add: temperature_digit_def bind_def)
qed

lemma temperature_digit_at_17:
  "temperature_digit 1 (Finite 17) = Inr ''1''" "temperature_digit 4 (Finite 17) = Inr ''4''"
  "temperature_digit 7 (Finite 17) = Inr ''7''"
  by (simp_all add: temperature_digit_finite)

section \<open>The status decoder\<close>

lemma slice_single: "i < length s \<Longrightarrow> slice s i (Suc i) = [s ! i]"
  by (simp add: slice_def take_Suc_conv_app_nth)

lemma slice_pair: "Suc i < length s \<Longrightarrow> slice s i (Suc (Suc i)) = [s ! i, s ! Suc i]"
  by (simp add: slice_def take_Suc_conv_app_nth)

lemma slice_beyond: "length s \<le> i \<Longrightarrow> slice s i j = []"
  by (simp add: slice_def)

lemma isspace_no_digit: "isspace c \<Longrightarrow> digit_value c = 37"
  by (auto simp: isspace_def digit_value_def)

lemma digit_plain:
  assumes "digit_value c < 36"
  shows "\<not> isspace c" and "c \<noteq> CHR ''+''" and "c \<noteq> CHR ''-''" and "c \<noteq> CHR ''_''"
  using assms isspace_no_digit [of c] by (auto simp: digit_value_def)

lemma hex_digit_no_x:
  assumes "digit_value c < 16"
  shows "c \<noteq> CHR ''x''" and "c \<noteq> CHR ''X''"
  using assms by (auto simp: digit_value_def)

lemma int_of_str_empty: "int_of_str b [] = Inl (ValueError invalid_literal_for_int)"
  by (simp add: int_of_str_def)

lemma int_of_str_decimal_digit:
  assumes "digit_value c < 10"
  shows "int_of_str 10 [c] = Inr (int (digit_value c))"
proof -
  have "digit_value c < 36" using assms by simp
  note p = digit_plain [OF this]
  show ?thesis
    using assms p by (simp add: int_of_str_def)
qed

lemma int_of_str_hex_pair:
  assumes "digit_value a < 16" and "digit_value b < 16"
  shows "int_of_str 16 [a, b] = Inr (int (16 * digit_value a + digit_value b))"
proof -
  have "digit_value a < 36" "digit_value b < 36" using assms by simp_all
  note pa = digit_plain [OF this(1)] and pb = digit_plain [OF this(2)]
  show ?thesis
    using assms pa pb hex_digit_no_x [OF assms(2)] by (simp add: int_of_str_def)
qed

lemma decimal_digit_chars:
  "digit_value CHR ''0'' = 0" "digit_value CHR ''1'' = 1" "digit_value CHR ''2'' = 2"
  "digit_value CHR ''3'' = 3" "digit_value CHR ''4'' = 4" "digit_value CHR ''5'' = 5"
  "digit_value CHR ''6'' = 6" "digit_value CHR ''7'' = 7" "digit_value CHR ''8'' = 8"
  "digit_value CHR ''9'' = 9"
  by (simp_all add: digit_value_def)

text \<open>
  C6, with the condition that the temperature needs.  For every response of three
  elements whose second element has at least 8 characters, \<^verbatim>\<open>power\<close> is \<^verbatim>\<open>on\<close> if
  the character at index 2 of that element is \<^verbatim>\<open>1\<close> and \<^verbatim>\<open>off\<close> otherwise,
  \<^verbatim>\<open>swing_mode\<close> is true exactly if the character at index 5 is \<^verbatim>\<open>0\<close>, and, when
  the characters at index 6 and 7 are hexadecimal digits, \<^verbatim>\<open>temperature\<close> is their
  value in base 16.
\<close>

theorem status_fields_decoded:
  assumes "length d = 3" and "8 \<le> length (d ! 1)"
  shows "power_state (AirConditioningCompanionStatus_init d)
           = Inr (if d ! 1 ! 2 = CHR ''1'' then ''on'' else ''off'')
       \<and> swing_mode (AirConditioningCompanionStatus_init d) = Inr (d ! 1 ! 5 = CHR ''0'')
       \<and> (digit_value (d ! 1 ! 6) < 16 \<and> digit_value (d ! 1 ! 7) < 16 \<longrightarrow>
            temperature (AirConditioningCompanionStatus_init d)
              = Inr (int (16 * digit_value (d ! 1 ! 6) + digit_value (d ! 1 ! 7))))"
proof -
  let ?s = "d ! Suc 0"
  have g: "getitem d (Suc 0) = Inr ?s" using assms(1) by (simp add: getitem_def)
  have s2: "slice ?s 2 3 = [?s ! 2]"
    using assms(2) slice_single [of 2 ?s] by (simp add: eval_nat_numeral)
  have s5: "slice ?s 5 6 = [?s ! 5]"
    using assms(2) slice_single [of 5 ?s] by (simp add: eval_nat_numeral)
  have s6: "slice ?s 6 8 = [?s ! 6, ?s ! 7]"
    using assms(2) slice_pair [of 6 ?s] by (simp add: eval_nat_numeral)
  show ?thesis
    by (simp add: power_state_def swing_mode_def temperature_def
        AirConditioningCompanionStatus_init_def bind_def g s2 s5 s6 int_of_str_hex_pair)
qed

text \<open>The response quoted in the source: \<^verbatim>\<open>19\<close> at index 6 and 7 reads as 25.\<close>

theorem status_fields_decoded_witness:
  "length [''010500978022222102'', ''010201190280222221'', ''2''] = 3
   \<and> power_state (AirConditioningCompanionStatus_init
        [''010500978022222102'', ''010201190280222221'', ''2'']) = Inr ''off''
   \<and> swing_mode (AirConditioningCompanionStatus_init
        [''010500978022222102'', ''010201190280222221'', ''2'']) = Inr False
   \<and> temperature (AirConditioningCompanionStatus_init
        [''010500978022222102'', ''010201190280222221'', ''2'']) = Inr 25"
  using status_fields_decoded [of "[''010500978022222102'', ''010201190280222221'', ''2'']"]
  by (simp add: digit_value_def)

text \<open>
  A second element of 18 characters with \<^verbatim>\<open>zz\<close> at index 6 and 7: reading the
  temperature raises \<^verbatim>\<open>ValueError\<close>, no integer is derived.
\<close>

theorem temperature_not_hex_counterexample:
  "length [''010500978022222102'', ''010201zz0280222221'', ''2''] = 3
   \<and> 8 \<le> length ([''010500978022222102'', ''010201zz0280222221'', ''2''] ! 1)
   \<and> temperature (AirConditioningCompanionStatus_init
        [''010500978022222102'', ''010201zz0280222221'', ''2''])
       = Inl (ValueError invalid_literal_for_int)"
  by code_simp

text \<open>
  C7, with the values the code gives.  For the response
  \<^verbatim>\<open>["010500978022222102", "010201190280222221", "2"]\<close> the decoder yields
  \<^verbatim>\<open>power == "off"\<close> (the character at index 2 is \<^verbatim>\<open>0\<close>), \<^verbatim>\<open>is_on == False\<close>,
  \<^verbatim>\<open>temperature == 25\<close>, \<^verbatim>\<open>swing_mode == False\<close>, \<^verbatim>\<open>fan_speed == FanSpeed.Low\<close>,
  \<^verbatim>\<open>mode == OperationMode.Auto\<close> (the digit at index 3 is \<^verbatim>\<open>2\<close>),
  \<^verbatim>\<open>air_condition_model == "0180222221"\<close>, which is a key of the registry, and
  \<^verbatim>\<open>air_condition_power == "2"\<close>.
\<close>

theorem example_response_decoded:
  "power_state (AirConditioningCompanionStatus_init
      [''010500978022222102'', ''010201190280222221'', ''2'']) = Inr ''off''
   \<and> is_on (AirConditioningCompanionStatus_init
      [''010500978022222102'', ''010201190280222221'', ''2'']) = Inr False
   \<and> temperature (AirConditioningCompanionStatus_init
      [''010500978022222102'', ''010201190280222221'', ''2'']) = Inr 25
   \<and> swing_mode (AirConditioningCompanionStatus_init
      [''010500978022222102'', ''010201190280222221'', ''2'']) = Inr False
   \<and> fan_speed (AirConditioningCompanionStatus_init
      [''010500978022222102'', ''010201190280222221'', ''2'']) = Inr (Some FanSpeed_Low)
   \<and> mode (AirConditioningCompanionStatus_init
      [''010500978022222102'', ''010201190280222221'', ''2'']) = Inr (Some OperationMode_Auto)
   \<and> air_condition_model (AirConditioningCompanionStatus_init
      [''010500978022222102'', ''010201190280222221'', ''2'']) = Inr ''0180222221''
   \<and> air_condition_power (AirConditioningCompanionStatus_init
      [''010500978022222102'', ''010201190280222221'', ''2'']) = Inr ''2''"
  by code_simp

text \<open>The values the specification expects for \<^verbatim>\<open>power\<close>, \<^verbatim>\<open>mode\<close> and
  \<^verbatim>\<open>air_condition_model\<close> are not the ones the decoder gives.\<close>

theorem example_response_counterexample:
  "power_state (AirConditioningCompanionStatus_init
      [''010500978022222102'', ''010201190280222221'', ''2'']) \<noteq> Inr ''on''
   \<and> mode (AirConditioningCompanionStatus_init
      [''010500978022222102'', ''010201190280222221'', ''2'']) \<noteq> Inr (Some OperationMode_Cool)
   \<and> air_condition_model (AirConditioningCompanionStatus_init
      [''010500978022222102'', ''010201190280222221'', ''2'']) \<noteq> Inr (''01'' @ ''97802222'')"
  by code_simp

text \<open>
  C8, as the code behaves.  For every response of three elements whose second
  element is shorter than 8 characters the constructor does not fail: it stores
  the response unchanged.  Each field is derived when it is read:
  \<^verbatim>\<open>air_condition_power\<close> is the third element, \<^verbatim>\<open>power\<close> is \<^verbatim>\<open>on\<close> if there is a
  character at index 2 and it is \<^verbatim>\<open>1\<close>, and \<^verbatim>\<open>off\<close> otherwise, \<^verbatim>\<open>swing_mode\<close> is true
  exactly if there is a character at index 5 and it is \<^verbatim>\<open>0\<close>; reading
  \<^verbatim>\<open>temperature\<close> raises \<^verbatim>\<open>ValueError\<close> when the element has at most 6 characters,
  and reading \<^verbatim>\<open>fan_speed\<close> raises \<^verbatim>\<open>ValueError\<close> when it has at most 4.
\<close>

theorem short_status_not_rejected:
  assumes "length d = 3" and "length (d ! 1) < 8"
  shows "data (AirConditioningCompanionStatus_init d) = d
       \<and> air_condition_power (AirConditioningCompanionStatus_init d) = Inr (d ! 2)
       \<and> power_state (AirConditioningCompanionStatus_init d)
           = Inr (if 2 < length (d ! 1) \<and> d ! 1 ! 2 = CHR ''1'' then ''on'' else ''off'')
       \<and> swing_mode (AirConditioningCompanionStatus_init d)
           = Inr (5 < length (d ! 1) \<and> d ! 1 ! 5 = CHR ''0'')
       \<and> (length (d ! 1) \<le> 6 \<longrightarrow>
            temperature (AirConditioningCompanionStatus_init d)
              = Inl (ValueError invalid_literal_for_int))
       \<and> (length (d ! 1) \<le> 4 \<longrightarrow>
            fan_speed (AirConditioningCompanionStatus_init d)
              = Inl (ValueError invalid_literal_for_int))"
proof -
  let ?s = "d ! Suc 0"
  have g: "getitem d (Suc 0) = Inr ?s" "getitem d 2 = Inr (d ! 2)"
    using assms(1) by (simp_all add: getitem_def)
  have s2: "slice ?s 2 3 = (if 2 < length ?s then [?s ! 2] else [])"
    using slice_single [of 2 ?s] slice_beyond [of ?s 2 3] by (simp add: eval_nat_numeral)
  have s5: "slice ?s 5 6 = (if 5 < length ?s then [?s ! 5] else [])"
    using slice_single [of 5 ?s] slice_beyond [of ?s 5 6] by (simp add: eval_nat_numeral)
  show ?thesis
    by (simp add: power_state_def swing_mode_def temperature_def fan_speed_def
        air_condition_power_def str_def
        AirConditioningCompanionStatus_init_def bind_def g s2 s5 slice_beyond int_of_str_empty)
qed

text \<open>A second element of four characters.\<close>

theorem short_status_not_rejected_witness:
  "length [''010500978022222102'', ''0102'', ''2''] = 3
   \<and> length ([''010500978022222102'', ''0102'', ''2''] ! 1) < 8
   \<and> power_state (AirConditioningCompanionStatus_init [''010500978022222102'', ''0102'', ''2''])
       = Inr ''off''
   \<and> swing_mode (AirConditioningCompanionStatus_init [''010500978022222102'', ''0102'', ''2''])
       = Inr False
   \<and> temperature (AirConditioningCompanionStatus_init [''010500978022222102'', ''0102'', ''2''])
       = Inl (ValueError invalid_literal_for_int)"
  using short_status_not_rejected [of "[''010500978022222102'', ''0102'', ''2'']"]
  by simp

text \<open>
  The same response: the snapshot is built, \<^verbatim>\<open>power\<close>, \<^verbatim>\<open>mode\<close> and
  \<^verbatim>\<open>air_condition_model\<close> are read from it, and only the read of \<^verbatim>\<open>fan_speed\<close>
  raises, with \<^verbatim>\<open>ValueError\<close>.
\<close>

theorem short_status_counterexample:
  "length ([''010500978022222102'', ''0102'', ''2''] ! 1) < 8
   \<and> power_state (AirConditioningCompanionStatus_init [''010500978022222102'', ''0102'', ''2''])
       = Inr ''off''
   \<and> mode (AirConditioningCompanionStatus_init [''010500978022222102'', ''0102'', ''2''])
       = Inr (Some OperationMode_Auto)
   \<and> air_condition_model (AirConditioningCompanionStatus_init [''010500978022222102'', ''0102'', ''2''])
       = Inr ''0180222221''
   \<and> fan_speed (AirConditioningCompanionStatus_init [''010500978022222102'', ''0102'', ''2''])
       = Inl (ValueError invalid_literal_for_int)"
  by code_simp

text \<open>
  C9, as the code behaves.  For every response whose second element has a decimal
  digit at index 4: the snapshot is built without any check and holds the
  response unchanged, and \<^verbatim>\<open>power\<close> is read from it whatever that digit is; if the
  digit is 0, 1, 2 or 3, \<^verbatim>\<open>fan_speed\<close> is the member of \<^verbatim>\<open>FanSpeed\<close> with that code
  and no error occurs; if it is 4 to 9, only the read of \<^verbatim>\<open>fan_speed\<close> raises, with
  the \<^verbatim>\<open>ValueError\<close> of \<^verbatim>\<open>FanSpeed(speed)\<close>, ``is not a valid FanSpeed''.
\<close>

theorem fan_speed_read_lazily:
  assumes "1 < length d" and "4 < length (d ! 1)"
  shows "data (AirConditioningCompanionStatus_init d) = d
       \<and> power_state (AirConditioningCompanionStatus_init d)
           = Inr (if d ! 1 ! 2 = CHR ''1'' then ''on'' else ''off'')
       \<and> (d ! 1 ! 4 = CHR ''0'' \<longrightarrow>
            fan_speed (AirConditioningCompanionStatus_init d) = Inr (Some FanSpeed_Low))
       \<and> (d ! 1 ! 4 = CHR ''1'' \<longrightarrow>
            fan_speed (AirConditioningCompanionStatus_init d) = Inr (Some FanSpeed_Medium))
       \<and> (d ! 1 ! 4 = CHR ''2'' \<longrightarrow>
            fan_speed (AirConditioningCompanionStatus_init d) = Inr (Some FanSpeed_High))
       \<and> (d ! 1 ! 4 = CHR ''3'' \<longrightarrow>
            fan_speed (AirConditioningCompanionStatus_init d) = Inr (Some FanSpeed_Auto))
       \<and> (List.member ''456789'' (d ! 1 ! 4) \<longrightarrow>
            fan_speed (AirConditioningCompanionStatus_init d)
              = Inl (ValueError (not_a_valid_FanSpeed (int (digit_value (d ! 1 ! 4))))))"
proof -
  let ?s = "d ! Suc 0"
  have g: "getitem d (Suc 0) = Inr ?s" using assms(1) by (simp add: getitem_def)
  have s4: "slice ?s 4 5 = [?s ! 4]"
    using assms(2) slice_single [of 4 ?s] by (simp add: eval_nat_numeral)
  have s2: "slice ?s 2 3 = [?s ! 2]"
    using assms(2) slice_single [of 2 ?s] by (simp add: eval_nat_numeral)
  have p: "power_state (AirConditioningCompanionStatus_init d)
      = Inr (if d ! 1 ! 2 = CHR ''1'' then ''on'' else ''off'')"
    by (simp add: power_state_def AirConditioningCompanionStatus_init_def bind_def g s2)
  have i: "data (AirConditioningCompanionStatus_init d) = d"
    by (simp add: AirConditioningCompanionStatus_init_def)
  have f: "fan_speed (AirConditioningCompanionStatus_init d)
      = bind (int_of_str 10 [d ! 1 ! 4]) (\<lambda>speed. bind (FanSpeed_of speed) (\<lambda>m. Inr (Some m)))"
    by (simp add: fan_speed_def AirConditioningCompanionStatus_init_def bind_def g s4)
  show ?thesis
    unfolding f p i
    by (auto simp: int_of_str_decimal_digit decimal_digit_chars bind_def FanSpeed_of_def)
qed

text \<open>The digits 9 and 3 at index 4.\<close>

theorem fan_speed_read_lazily_witness:
  "fan_speed (AirConditioningCompanionStatus_init [''010500978022222102'', ''010291190280222221'', ''2''])
     = Inl (ValueError (not_a_valid_FanSpeed 9))
   \<and> power_state (AirConditioningCompanionStatus_init [''010500978022222102'', ''010291190280222221'', ''2''])
     = Inr ''off''
   \<and> fan_speed (AirConditioningCompanionStatus_init [''010500978022222102'', ''010231190280222221'', ''2''])
     = Inr (Some FanSpeed_Auto)"
  using fan_speed_read_lazily [of "[''010500978022222102'', ''010291190280222221'', ''2'']"]
        fan_speed_read_lazily [of "[''010500978022222102'', ''010231190280222221'', ''2'']"]
  by (simp add: decimal_digit_chars)

text \<open>
  With 9 at index 4 the read of \<^verbatim>\<open>fan_speed\<close> raises, and the snapshot that the
  constructor returned holds the response and yields \<^verbatim>\<open>power\<close>, \<^verbatim>\<open>temperature\<close>,
  \<^verbatim>\<open>swing_mode\<close>, \<^verbatim>\<open>mode\<close> and \<^verbatim>\<open>air_condition_model\<close>: a snapshot with one field that
  cannot be read is exposed.
\<close>

theorem fan_speed_snapshot_exposed_counterexample:
  "fan_speed (AirConditioningCompanionStatus_init
      [''010500978022222102'', ''010291190280222221'', ''2''])
     = Inl (ValueError (not_a_valid_FanSpeed 9))
   \<and> data (AirConditioningCompanionStatus_init
      [''010500978022222102'', ''010291190280222221'', ''2''])
     = [''010500978022222102'', ''010291190280222221'', ''2'']
   \<and> power_state (AirConditioningCompanionStatus_init
      [''010500978022222102'', ''010291190280222221'', ''2'']) = Inr ''off''
   \<and> temperature (AirConditioningCompanionStatus_init
      [''010500978022222102'', ''010291190280222221'', ''2'']) = Inr 25
   \<and> swing_mode (AirConditioningCompanionStatus_init
      [''010500978022222102'', ''010291190280222221'', ''2'']) = Inr False
   \<and> mode (AirConditioningCompanionStatus_init
      [''010500978022222102'', ''010291190280222221'', ''2'']) = Inr (Some OperationMode_Auto)
   \<and> air_condition_model (AirConditioningCompanionStatus_init
      [''010500978022222102'', ''010291190280222221'', ''2'']) = Inr ''0180222221''"
  by code_simp

text \<open>
  C10.  For every response whose second element is shorter than 3 characters,
  reading \<^verbatim>\<open>power\<close> does not fail: the slice \<^verbatim>\<open>[2:3]\<close> is empty and differs from
  \<^verbatim>\<open>'1'\<close>, so \<^verbatim>\<open>power\<close> is \<^verbatim>\<open>off\<close> and \<^verbatim>\<open>is_on\<close> is false.
\<close>

theorem power_of_short_status:
  assumes "1 < length d" and "length (d ! 1) < 3"
  shows "power_state (AirConditioningCompanionStatus_init d) = Inr ''off''
       \<and> is_on (AirConditioningCompanionStatus_init d) = Inr False"
proof -
  have g: "getitem d (Suc 0) = Inr (d ! Suc 0)" using assms(1) by (simp add: getitem_def)
  have s: "slice (d ! Suc 0) 2 3 = []" using assms(2) by (simp add: slice_def)
  show ?thesis
    by (simp add: is_on_def power_state_def AirConditioningCompanionStatus_init_def bind_def g s)
qed

theorem power_of_short_status_witness:
  "1 < length [''010500978022222102'', ''01'', ''2'']
   \<and> length ([''010500978022222102'', ''01'', ''2''] ! 1) < 3
   \<and> power_state (AirConditioningCompanionStatus_init [''010500978022222102'', ''01'', ''2'']) = Inr ''off''
   \<and> is_on (AirConditioningCompanionStatus_init [''010500978022222102'', ''01'', ''2'']) = Inr False"
  using power_of_short_status [of "[''010500978022222102'', ''01'', ''2'']"]
  by simp

end
